theory Spec2Isabelle
  imports
    Main
    "HOL-Library.Char_ord"
    "HOL-Library.List_Lexorder"
    "HOL-Library.Sublist"
    "HOL-Library.Log_Nat"
begin

section \<open>Python strings\<close>

text \<open>
  A Python \<open>str\<close> is modelled as a \<^typ>\<open>string\<close> holding its UTF-8 bytes. The
  program's literals are ASCII except for the bullet U+2022, which is the three
  bytes \<open>E2 80 A2\<close>. \<open>strip\<close> and \<open>split\<close> know the whitespace characters of
  Unicode, and \<open>upper\<close> the characters outside ASCII whose upper case holds an ASCII
  letter. \<open>lower\<close> and the regular-expression classes \<open>\w\<close> and \<open>\s\<close> are those of
  Python on ASCII text: for them a byte above \<open>0x7F\<close> is left alone, and is neither
  whitespace nor a word character.
\<close>

definition ascii_uppercase :: string where
  "ascii_uppercase = ''ABCDEFGHIJKLMNOPQRSTUVWXYZ''"

definition ascii_lowercase :: string where
  "ascii_lowercase = ''abcdefghijklmnopqrstuvwxyz''"

definition digits :: string where
  "digits = ''0123456789''"

definition lower_char :: "char \<Rightarrow> char" where
  "lower_char c = (case map_of (zip ascii_uppercase ascii_lowercase) c of Some d \<Rightarrow> d | None \<Rightarrow> c)"

definition upper_char :: "char \<Rightarrow> char" where
  "upper_char c = (case map_of (zip ascii_lowercase ascii_uppercase) c of Some d \<Rightarrow> d | None \<Rightarrow> c)"

definition lower :: "string \<Rightarrow> string" where
  "lower s = map lower_char s"

text \<open>
  The characters outside ASCII whose upper case holds an ASCII letter, with their upper
  case: U+00DF, U+0131, U+0149, U+017F, U+01F0, U+1E96 to U+1E9A, U+FB00 to U+FB06.
  The upper case of any other character outside ASCII has no ASCII character.
\<close>

definition upper_special :: "(string \<times> string) list" where
  "upper_special =
    [([CHR 0xC3, CHR 0x9F], ''SS''),
     ([CHR 0xC4, CHR 0xB1], ''I''),
     ([CHR 0xC5, CHR 0x89], [CHR 0xCA, CHR 0xBC, CHR ''N'']),
     ([CHR 0xC5, CHR 0xBF], ''S''),
     ([CHR 0xC7, CHR 0xB0], [CHR ''J'', CHR 0xCC, CHR 0x8C]),
     ([CHR 0xE1, CHR 0xBA, CHR 0x96], [CHR ''H'', CHR 0xCC, CHR 0xB1]),
     ([CHR 0xE1, CHR 0xBA, CHR 0x97], [CHR ''T'', CHR 0xCC, CHR 0x88]),
     ([CHR 0xE1, CHR 0xBA, CHR 0x98], [CHR ''W'', CHR 0xCC, CHR 0x8A]),
     ([CHR 0xE1, CHR 0xBA, CHR 0x99], [CHR ''Y'', CHR 0xCC, CHR 0x8A]),
     ([CHR 0xE1, CHR 0xBA, CHR 0x9A], [CHR ''A'', CHR 0xCA, CHR 0xBE]),
     ([CHR 0xEF, CHR 0xAC, CHR 0x80], ''FF''),
     ([CHR 0xEF, CHR 0xAC, CHR 0x81], ''FI''),
     ([CHR 0xEF, CHR 0xAC, CHR 0x82], ''FL''),
     ([CHR 0xEF, CHR 0xAC, CHR 0x83], ''FFI''),
     ([CHR 0xEF, CHR 0xAC, CHR 0x84], ''FFL''),
     ([CHR 0xEF, CHR 0xAC, CHR 0x85], ''ST''),
     ([CHR 0xEF, CHR 0xAC, CHR 0x86], ''ST'')]"

fun upper :: "string \<Rightarrow> string" where
  "upper [] = []"
| "upper (c # cs) =
     (case find (\<lambda>(src, dst). prefix src (c # cs)) upper_special of
        Some (src, dst) \<Rightarrow> dst @ upper (drop (length src - 1) cs)
      | None \<Rightarrow> upper_char c # upper cs)"

definition is_space :: "char \<Rightarrow> bool" where
  "is_space c = (c \<in> set [CHR '' '', CHR 0x09, CHR 0x0A, CHR 0x0B, CHR 0x0C, CHR 0x0D,
                            CHR 0x1C, CHR 0x1D, CHR 0x1E, CHR 0x1F])"

text \<open>
  The whitespace characters outside ASCII: U+0085, U+00A0, U+1680, U+2000 to U+200A,
  U+2028, U+2029, U+202F, U+205F, U+3000.
\<close>

definition unicode_spaces :: "string list" where
  "unicode_spaces =
    [[CHR 0xC2, CHR 0x85], [CHR 0xC2, CHR 0xA0], [CHR 0xE1, CHR 0x9A, CHR 0x80],
     [CHR 0xE2, CHR 0x80, CHR 0x80], [CHR 0xE2, CHR 0x80, CHR 0x81],
     [CHR 0xE2, CHR 0x80, CHR 0x82], [CHR 0xE2, CHR 0x80, CHR 0x83],
     [CHR 0xE2, CHR 0x80, CHR 0x84], [CHR 0xE2, CHR 0x80, CHR 0x85],
     [CHR 0xE2, CHR 0x80, CHR 0x86], [CHR 0xE2, CHR 0x80, CHR 0x87],
     [CHR 0xE2, CHR 0x80, CHR 0x88], [CHR 0xE2, CHR 0x80, CHR 0x89],
     [CHR 0xE2, CHR 0x80, CHR 0x8A], [CHR 0xE2, CHR 0x80, CHR 0xA8],
     [CHR 0xE2, CHR 0x80, CHR 0xA9], [CHR 0xE2, CHR 0x80, CHR 0xAF],
     [CHR 0xE2, CHR 0x81, CHR 0x9F], [CHR 0xE3, CHR 0x80, CHR 0x80]]"

text \<open>
  The number of bytes of the whitespace character that a text begins with, 0 when it
  begins with none; \<open>ws\<close> lists the whitespace characters outside ASCII.
\<close>

definition space_width :: "string list \<Rightarrow> string \<Rightarrow> nat" where
  "space_width ws s =
     (case s of
        [] \<Rightarrow> 0
      | c # cs \<Rightarrow> if is_space c then 1
                 else (case find (\<lambda>w. prefix w s) ws of Some w \<Rightarrow> length w | None \<Rightarrow> 0))"

fun lstrip_of :: "string list \<Rightarrow> string \<Rightarrow> string" where
  "lstrip_of ws [] = []"
| "lstrip_of ws (c # cs) =
     (if space_width ws (c # cs) = 0 then c # cs
      else lstrip_of ws (drop (space_width ws (c # cs) - 1) cs))"

text \<open>\<open>str.strip()\<close>: the whitespace at the end is found on the reversed text.\<close>

definition strip :: "string \<Rightarrow> string" where
  "strip s = rev (lstrip_of (map rev unicode_spaces) (rev (lstrip_of unicode_spaces s)))"

text \<open>\<open>needle in haystack\<close> on strings.\<close>

fun py_in :: "string \<Rightarrow> string \<Rightarrow> bool" where
  "py_in p [] = (p = [])"
| "py_in p (c # cs) = (prefix p (c # cs) \<or> py_in p cs)"

section \<open>Regular expressions of the program\<close>

text \<open>
  \<open>\w\<close> and \<open>\b\<close>. A word boundary lies at position \<open>p\<close> when exactly one of
  the characters before and after \<open>p\<close> is a word character; outside the text
  counts as a non-word character.
\<close>

definition is_word_char :: "char \<Rightarrow> bool" where
  "is_word_char c = (c \<in> set (ascii_lowercase @ ascii_uppercase @ digits @ ''_''))"

definition word_before :: "string \<Rightarrow> nat \<Rightarrow> bool" where
  "word_before t p = (0 < p \<and> p \<le> length t \<and> is_word_char (t ! (p - 1)))"

definition word_after :: "string \<Rightarrow> nat \<Rightarrow> bool" where
  "word_after t p = (p < length t \<and> is_word_char (t ! p))"

definition word_boundary :: "string \<Rightarrow> nat \<Rightarrow> bool" where
  "word_boundary t p = (word_before t p \<noteq> word_after t p)"

definition occurs_at :: "string \<Rightarrow> string \<Rightarrow> nat \<Rightarrow> bool" where
  "occurs_at w t i = (i + length w \<le> length t \<and> take (length w) (drop i t) = w)"

text \<open>
  \<open>re.search(r'\b' + re.escape(w) + r'\b', t)\<close> finds something: the escaped
  pattern is the literal \<open>w\<close>, so a match is an occurrence of \<open>w\<close> with a word
  boundary on each side.
\<close>

definition word_match_at :: "string \<Rightarrow> string \<Rightarrow> nat \<Rightarrow> bool" where
  "word_match_at w t i =
     (occurs_at w t i \<and> word_boundary t i \<and> word_boundary t (i + length w))"

definition search_word :: "string \<Rightarrow> string \<Rightarrow> bool" where
  "search_word w t = list_ex (word_match_at w t) [0..<Suc (length t)]"

section \<open>Keyword extractor\<close>

definition technical_skills :: "string list" where
  "technical_skills =
    [''python'', ''java'', ''javascript'', ''typescript'', ''c++'', ''c#'', ''ruby'', ''go'',
     ''php'', ''swift'', ''kotlin'', ''scala'', ''rust'', ''r'', ''matlab'',
     ''html'', ''css'', ''react'', ''angular'', ''vue'', ''node.js'', ''nodejs'',
     ''django'', ''flask'', ''fastapi'', ''express'', ''spring boot'', ''asp.net'',
     ''next.js'', ''svelte'', ''jquery'', ''bootstrap'', ''tailwind'',
     ''sql'', ''mysql'', ''postgresql'', ''mongodb'', ''redis'', ''oracle'', ''nosql'',
     ''dynamodb'', ''cassandra'', ''elasticsearch'', ''sqlite'',
     ''aws'', ''azure'', ''gcp'', ''google cloud'', ''docker'', ''kubernetes'', ''k8s'',
     ''terraform'', ''ansible'', ''jenkins'', ''gitlab'', ''github actions'', ''ci/cd'',
     ''machine learning'', ''deep learning'', ''data science'', ''artificial intelligence'',
     ''tensorflow'', ''pytorch'', ''keras'', ''scikit-learn'', ''pandas'', ''numpy'',
     ''matplotlib'', ''nlp'', ''computer vision'', ''opencv'',
     ''spark'', ''hadoop'', ''kafka'', ''airflow'', ''databricks'',
     ''git'', ''jira'', ''agile'', ''scrum'', ''devops'',
     ''rest api'', ''graphql'', ''microservices'', ''linux'', ''bash'',
     ''api'', ''etl'', ''tableau'', ''power bi'', ''excel'']"

text \<open>
  \<open>KeywordExtractor.extract_skills_from_text\<close>: the vocabulary scan, then the three
  abbreviations. The result is a Python set.
\<close>

definition extract_skills_from_text :: "string \<Rightarrow> string set" where
  "extract_skills_from_text text =
     (let text_lower = lower text;
          found_skills = set (filter (\<lambda>skill. search_word skill text_lower) technical_skills);
          found_skills = (if search_word ''ml'' text_lower
                          then insert ''machine learning'' found_skills else found_skills);
          found_skills = (if search_word ''ai'' text_lower
                          then insert ''artificial intelligence'' found_skills else found_skills);
          found_skills = (if search_word ''js'' text_lower
                          then insert ''javascript'' found_skills else found_skills)
      in found_skills)"

section \<open>Python floats\<close>

text \<open>
  A Python \<open>float\<close> is an IEEE 754 binary64 number. The model carries its exact
  value as a rational; every arithmetic operation returns the exact result rounded
  to the nearest number with a 53-bit significand, ties to even (\<open>fl\<close>). The
  exponent range is not bounded: the values of this program stay far from overflow
  and from the subnormal range.
\<close>

type_synonym pyfloat = rat

definition round_half_even :: "rat \<Rightarrow> int" where
  "round_half_even q =
     (let f = \<lfloor>q\<rfloor>; d = q - of_int f
      in if d < 1 / 2 then f else if 1 / 2 < d then f + 1 else if even f then f else f + 1)"

text \<open>The exponent \<open>e\<close> with \<open>2^e \<le> x < 2^(e+1)\<close>, for positive \<open>x\<close>.\<close>

definition binade :: "rat \<Rightarrow> int" where
  "binade x =
     (let k = bitlen (fst (quotient_of x)) - bitlen (snd (quotient_of x))
      in if 2 powi k \<le> x then k else k - 1)"

definition fl :: "rat \<Rightarrow> pyfloat" where
  "fl x =
     (if x = 0 then 0
      else let u = 2 powi (binade \<bar>x\<bar> - 52) in of_int (round_half_even (x / u)) * u)"

text \<open>The literals \<open>0.7\<close> and \<open>0.3\<close>.\<close>

definition lit_0_7 :: pyfloat where
  "lit_0_7 = fl (7 / 10)"

definition lit_0_3 :: pyfloat where
  "lit_0_3 = fl (3 / 10)"

text \<open>
  \<open>round(x, 1)\<close> on a float: the exact value is rounded to one decimal place, ties
  to even, and the decimal is read back as the nearest float.
\<close>

definition round1 :: "pyfloat \<Rightarrow> pyfloat" where
  "round1 x = fl (of_int (round_half_even (x * 10)) / 10)"

section \<open>Data structures\<close>

record PersonalInfo =
  name :: string
  email :: string
  phone :: string
  location :: string
  linkedin :: string
  github :: string

text \<open>
  A value of the \<open>skills\<close> dictionary: the scorer tests \<open>isinstance(v, list)\<close>, so
  a value that is not a list is a case of its own.
\<close>

datatype skill_category = SkillList "string list" | NotAList

record CVData =
  personal_info :: PersonalInfo
  skills :: "(string \<times> skill_category) list"
  raw_text :: string
  original_file_path :: string

record JobRequirements =
  job_title :: string
  company :: string
  required_skills :: "string list"
  preferred_skills :: "string list"
  all_skills :: "string list"
  responsibilities :: "string list"

section \<open>Keyword matcher\<close>

record MatchResult =
  overall_score :: pyfloat
  required_score :: pyfloat
  preferred_score :: pyfloat
  matched_required :: "string list"
  missing_required :: "string list"
  matched_preferred :: "string list"
  missing_preferred :: "string list"

text \<open>The loop over \<open>cv_data.skills.values()\<close>.\<close>

fun cv_skill_set :: "(string \<times> skill_category) list \<Rightarrow> string set" where
  "cv_skill_set [] = {}"
| "cv_skill_set ((k, SkillList xs) # rest) = set (map lower xs) \<union> cv_skill_set rest"
| "cv_skill_set ((k, NotAList) # rest) = cv_skill_set rest"

text \<open>\<open>(len(matched) / len(job) * 100) if job else 100\<close>.\<close>

definition score_of :: "string set \<Rightarrow> string set \<Rightarrow> pyfloat" where
  "score_of matched job =
     (if job \<noteq> {} then fl (fl (of_nat (card matched) / of_nat (card job)) * 100) else 100)"

definition calculate_match_score :: "CVData \<Rightarrow> JobRequirements \<Rightarrow> MatchResult" where
  "calculate_match_score cv_data job_req =
     (let cv_skills = cv_skill_set (skills cv_data);
          job_required = set (map lower (required_skills job_req));
          job_preferred = set (map lower (preferred_skills job_req));
          matched_req = cv_skills \<inter> job_required;
          missing_req = job_required - cv_skills;
          matched_pref = cv_skills \<inter> job_preferred;
          missing_pref = job_preferred - cv_skills;
          required = score_of matched_req job_required;
          preferred = score_of matched_pref job_preferred;
          overall = fl (fl (required * lit_0_7) + fl (preferred * lit_0_3))
      in \<lparr> overall_score = round1 overall,
           required_score = round1 required,
           preferred_score = round1 preferred,
           matched_required = sorted_list_of_set matched_req,
           missing_required = sorted_list_of_set missing_req,
           matched_preferred = sorted_list_of_set matched_pref,
           missing_preferred = sorted_list_of_set missing_pref \<rparr>)"

section \<open>Job description analyzer\<close>

text \<open>
  Both patterns of \<open>extract_skills_from_job\<close> end in a lazy group followed by a
  lookahead: \<open>(.*?)(?=stop1|stop2|...|$)\<close>, searched with \<open>re.DOTALL\<close>. The group
  is the shortest text after which one of the stop words begins, or the text ends,
  or only the final newline is left.
\<close>

fun lazy_capture :: "string list \<Rightarrow> string \<Rightarrow> string" where
  "lazy_capture stops [] = []"
| "lazy_capture stops (c # cs) =
     (if list_ex (\<lambda>s. prefix s (c # cs)) stops \<or> c # cs = [CHR 0x0A] then []
      else c # lazy_capture stops cs)"

text \<open>The class \<open>[:\s]\<close>.\<close>

definition is_sep :: "char \<Rightarrow> bool" where
  "is_sep c = (c = CHR '':'' \<or> is_space c)"

text \<open>
  \<open>[:\s]+(.*?)(?=...)\<close> at the start of a text: the greedy class takes the whole run
  of separators, and the lazy group always finds its end, so no shorter run is tried.
\<close>

definition seps_then_capture :: "string list \<Rightarrow> string \<Rightarrow> string option" where
  "seps_then_capture stops t =
     (case t of [] \<Rightarrow> None
      | c # cs \<Rightarrow> if is_sep c then Some (lazy_capture stops (dropWhile is_sep t)) else None)"

text \<open>
  \<open>required(?:\s+(?:skills|qualifications))?[:\s]+(.*?)(?=preferred|nice|bonus|responsibilities|$)\<close>
  anchored at the start of a text; the value is group 1. The optional group is tried
  first, and given up when no separator follows it.
\<close>

definition required_stops :: "string list" where
  "required_stops = [''preferred'', ''nice'', ''bonus'', ''responsibilities'']"

definition match_required :: "string \<Rightarrow> string option" where
  "match_required t =
     (if prefix ''required'' t then
        (let r = drop (length ''required'') t;
             w = dropWhile is_space r;
             with_group =
               (if r \<noteq> [] \<and> is_space (hd r) then
                  (if prefix ''skills'' w
                   then seps_then_capture required_stops (drop (length ''skills'') w)
                   else if prefix ''qualifications'' w
                   then seps_then_capture required_stops (drop (length ''qualifications'') w)
                   else None)
                else None)
         in case with_group of Some g \<Rightarrow> Some g | None \<Rightarrow> seps_then_capture required_stops r)
      else None)"

text \<open>\<open>must\s+have[:\s]+(.*?)(?=preferred|nice|$)\<close> anchored at the start of a text.\<close>

definition must_have_stops :: "string list" where
  "must_have_stops = [''preferred'', ''nice'']"

definition match_must_have :: "string \<Rightarrow> string option" where
  "match_must_have t =
     (if prefix ''must'' t then
        (let r = drop (length ''must'') t; w = dropWhile is_space r
         in if r \<noteq> [] \<and> is_space (hd r) \<and> prefix ''have'' w
            then seps_then_capture must_have_stops (drop (length ''have'') w)
            else None)
      else None)"

text \<open>\<open>re.search\<close>: the match at the leftmost position that has one.\<close>

fun re_search :: "(string \<Rightarrow> 'a option) \<Rightarrow> string \<Rightarrow> 'a option" where
  "re_search m [] = m []"
| "re_search m (c # cs) = (case m (c # cs) of Some g \<Rightarrow> Some g | None \<Rightarrow> re_search m cs)"

text \<open>The loop over \<open>required_patterns\<close>, which stops at the first pattern that matches.\<close>

definition find_required_text :: "string \<Rightarrow> string" where
  "find_required_text text_lower =
     (case re_search match_required text_lower of
        Some g \<Rightarrow> g
      | None \<Rightarrow> (case re_search match_must_have text_lower of Some g \<Rightarrow> g | None \<Rightarrow> []))"

text \<open>
  The dictionary that \<open>extract_skills_from_job\<close> returns, with its keys
  \<open>'required'\<close>, \<open>'preferred'\<close> and \<open>'all'\<close>.
\<close>

record job_skills =
  required :: "string list"
  preferred :: "string list"
  all_found :: "string list"

text \<open>\<open>int(n * 0.7)\<close> for a length \<open>n\<close>.\<close>

definition split_point_of :: "nat \<Rightarrow> nat" where
  "split_point_of n = nat \<lfloor>fl (of_nat n * lit_0_7)\<rfloor>"

text \<open>
  Python does not fix the order in which a set of strings is iterated, nor the order
  of \<open>list(s)\<close>. The order is the parameter \<open>enum\<close>: \<open>enum s\<close> is the list that
  iterating \<open>s\<close> gives.
\<close>

definition enumerates :: "(string set \<Rightarrow> string list) \<Rightarrow> bool" where
  "enumerates enum = (\<forall>s. finite s \<longrightarrow> set (enum s) = s \<and> distinct (enum s))"

definition extract_skills_from_job ::
    "(string set \<Rightarrow> string list) \<Rightarrow> string \<Rightarrow> job_skills" where
  "extract_skills_from_job enum text =
     (let all_skills = extract_skills_from_text text;
          text_lower = lower text;
          required_text = find_required_text text_lower;
          is_required = (\<lambda>skill. required_text \<noteq> [] \<and> py_in skill required_text);
          required_skills = filter is_required (enum all_skills);
          preferred_skills = filter (\<lambda>skill. \<not> is_required skill) (enum all_skills);
          required_skills = enum (set required_skills);
          preferred_skills = enum (set preferred_skills);
          split_point = split_point_of (length required_skills);
          fallback = (preferred_skills = [] \<and> 3 < length required_skills);
          preferred_skills' = (if fallback then drop split_point required_skills
                               else preferred_skills);
          required_skills' = (if fallback then take split_point required_skills
                              else required_skills)
      in \<lparr> required = sort required_skills',
           preferred = sort preferred_skills',
           all_found = sort (enum all_skills) \<rparr>)"

section \<open>Documents\<close>

text \<open>
  A document is the list of its body paragraphs, which is what \<open>doc.paragraphs\<close>
  reads. A paragraph has a style and runs; a run is formatted text or a page break.
  \<open>paragraph.text\<close> is the text of the runs, in order; a page break adds nothing
  to it.
\<close>

datatype run =
    Run (run_text: string) (run_bold: "bool option") (run_size: "nat option")
        (run_color: "(nat \<times> nat \<times> nat) option")
  | PageBreak

datatype para = Paragraph (style: string) (runs: "run list")

fun text_of_run :: "run \<Rightarrow> string" where
  "text_of_run (Run t b sz col) = t"
| "text_of_run PageBreak = []"

definition para_text :: "para \<Rightarrow> string" where
  "para_text p = concat (map text_of_run (runs p))"

text \<open>\<open>doc.add_paragraph()\<close> with no text: an empty paragraph of the default style.\<close>

definition blank_para :: para where
  "blank_para = Paragraph ''Normal'' []"

text \<open>
  A paragraph of two runs: the label, bold, 11 pt, colour \<open>RGB(44, 62, 80)\<close>, then
  the text at 11 pt.
\<close>

definition labelled_para :: "string \<Rightarrow> string \<Rightarrow> para" where
  "labelled_para label txt =
     Paragraph ''Normal'' [Run label (Some True) (Some 11) (Some (44, 62, 80)),
                           Run txt None (Some 11) None]"

definition page_break_para :: para where
  "page_break_para = Paragraph ''Normal'' [PageBreak]"

text \<open>\<open>doc.add_heading(text, level)\<close>, for a level from 0 to 9; level 0 is the title.\<close>

definition heading_para :: "string \<Rightarrow> nat \<Rightarrow> para" where
  "heading_para txt level =
     Paragraph (if level = 0 then ''Title'' else ''Heading '' @ [digits ! level])
       [Run txt None None None]"

section \<open>More string operations\<close>

text \<open>\<open>str.split()\<close> with no argument: the words between runs of whitespace.\<close>

fun split_words :: "string \<Rightarrow> string \<Rightarrow> string list" where
  "split_words cur [] = (if cur = [] then [] else [rev cur])"
| "split_words cur (c # cs) =
     (if space_width unicode_spaces (c # cs) = 0 then split_words (c # cur) cs
      else (if cur = [] then [] else [rev cur])
           @ split_words [] (drop (space_width unicode_spaces (c # cs) - 1) cs))"

definition split_ws :: "string \<Rightarrow> string list" where
  "split_ws s = split_words [] s"

fun join :: "string \<Rightarrow> string list \<Rightarrow> string" where
  "join sep [] = []"
| "join sep [x] = x"
| "join sep (x # y # ys) = x @ sep @ join sep (y # ys)"

text \<open>\<open>len\<close> counts code points: every byte but the continuation bytes of UTF-8.\<close>

definition is_continuation :: "char \<Rightarrow> bool" where
  "is_continuation c = ((of_char c :: nat) div 64 = 2)"

definition py_len :: "string \<Rightarrow> nat" where
  "py_len s = length (filter (\<lambda>c. \<not> is_continuation c) s)"

definition bullet :: string where
  "bullet = [CHR 0xE2, CHR 0x80, CHR 0xA2]"

text \<open>\<open>re.split(r'[\<bullet>\-\*,]', s)\<close>, the bullet being three bytes.\<close>

fun split_seps :: "string \<Rightarrow> string list" where
  "split_seps [] = [[]]"
| "split_seps (c # cs) =
     (if c \<in> set ''-*,'' then [] # split_seps cs
      else if prefix bullet (c # cs) then [] # split_seps (drop 2 cs)
      else (case split_seps cs of [] \<Rightarrow> [[c]] | p # ps \<Rightarrow> (c # p) # ps))"

text \<open>\<open>[s.strip() for s in re.split(r'[\<bullet>\-\*,]', text) if s.strip()]\<close>.\<close>

definition skill_items :: "string \<Rightarrow> string list" where
  "skill_items txt = filter (\<lambda>s. s \<noteq> []) (map strip (split_seps txt))"

text \<open>One optional character of a pattern, as in \<open>s?\<close> and \<open>:?\<close>.\<close>

definition skip_optional :: "(char \<Rightarrow> bool) \<Rightarrow> string \<Rightarrow> string" where
  "skip_optional P t = (case t of [] \<Rightarrow> [] | c # cs \<Rightarrow> if P c then cs else c # cs)"

lemma length_skip_optional: "length (skip_optional P t) \<le> length t"
  by (simp add: skip_optional_def split: list.splits)

text \<open>
  \<open>re.split(label + r's?:?', text, flags=re.IGNORECASE)\<close> for a lower-case literal
  \<open>label\<close>: the pieces of the text between the matches.
\<close>

function re_split_label :: "string \<Rightarrow> string \<Rightarrow> string list" where
  "re_split_label label [] = [[]]"
| "re_split_label label (c # cs) =
     (if label \<noteq> [] \<and> lower (take (length label) (c # cs)) = label
      then [] # re_split_label label
                 (skip_optional (\<lambda>x. x = CHR '':'')
                   (skip_optional (\<lambda>x. lower_char x = CHR ''s'')
                     (drop (length label) (c # cs))))
      else (case re_split_label label cs of [] \<Rightarrow> [[c]] | p # ps \<Rightarrow> (c # p) # ps))"
  by pat_completeness auto

termination re_split_label
proof (relation "measure (\<lambda>(label, t). length t)")
  show "wf (measure (\<lambda>(label :: string, t :: string). length t))" by simp
next
  fix label :: string and c cs
  assume a: "label \<noteq> [] \<and> lower (take (length label) (c # cs)) = label"
  let ?r = "skip_optional (\<lambda>x. x = CHR '':'')
              (skip_optional (\<lambda>x. lower_char x = CHR ''s'') (drop (length label) (c # cs)))"
  have "length ?r \<le> length (drop (length label) (c # cs))"
    using length_skip_optional le_trans by blast
  also have "\<dots> < length (c # cs)"
    using a by (cases label) simp_all
  finally show "((label, ?r), (label, c # cs)) \<in> measure (\<lambda>(label, t). length t)"
    by simp
next
  fix label :: string and c :: char and cs
  show "((label, cs), (label, c # cs)) \<in> measure (\<lambda>(label, t). length t)" by simp
qed

section \<open>Errors and files\<close>

datatype error =
    FileNotFoundError string
  | ValueError string
  | PackageNotFoundError string
  | IndexError
  | KeyError string

text \<open>Running the next step on the result of a step that raised nothing.\<close>

definition and_then :: "error + 'a \<Rightarrow> ('a \<Rightarrow> error + 'b) \<Rightarrow> error + 'b" where
  "and_then r f = (case r of Inl e \<Rightarrow> Inl e | Inr x \<Rightarrow> f x)"

text \<open>
  A file is a document, a PDF of pages, or something that neither library reads. A
  document has the names of the styles it defines and its paragraphs.
  \<open>page.extract_text()\<close> returns the text of a page or raises.
\<close>

datatype pdf_page = PageText string | PageFails

datatype file_content = DocxFile "string list" "para list" | PdfFile "pdf_page list" | OtherFile

type_synonym filesystem = "string \<Rightarrow> file_content option"

text \<open>\<open>Document(path)\<close>.\<close>

definition open_document :: "filesystem \<Rightarrow> string \<Rightarrow> error + (string list \<times> para list)" where
  "open_document fs path =
     (case fs path of
        Some (DocxFile doc_styles ps) \<Rightarrow> Inr (doc_styles, ps)
      | Some _ \<Rightarrow> Inl (PackageNotFoundError path)
      | None \<Rightarrow> Inl (PackageNotFoundError path))"

section \<open>CV exporter\<close>

text \<open>The upper-cased, whitespace-normalised text of a paragraph.\<close>

definition text_clean :: "para \<Rightarrow> string" where
  "text_clean p = join '' '' (split_ws (upper (strip (para_text p))))"

text \<open>A loop over the paragraphs that stops at the first one that qualifies.\<close>

fun find_first :: "('a \<Rightarrow> bool) \<Rightarrow> 'a list \<Rightarrow> nat option" where
  "find_first P [] = None"
| "find_first P (x # xs) = (if P x then Some 0 else map_option Suc (find_first P xs))"

definition exact_headers :: "string list" where
  "exact_headers = [''SKILLS'', ''TECHNICAL SKILLS'', ''COMPETENCIES'', ''EXPERTISE'',
                    ''TECHNOLOGIES'', ''CORE SKILLS'', ''HARD SKILLS'', ''PROFESSIONAL SKILLS'']"

definition is_exact_header :: "para \<Rightarrow> bool" where
  "is_exact_header p = (text_clean p \<in> set exact_headers)"

definition header_exclusions :: "string list" where
  "header_exclusions = [''EXPERIENCE'', ''EDUCATION'', ''PROFESSIONAL'', ''WORK'',
                        ''INTERNSHIP'', ''PROJECT'']"

definition is_loose_header :: "para \<Rightarrow> bool" where
  "is_loose_header p =
     (py_in ''SKILLS'' (text_clean p) \<and>
      \<not> list_ex (\<lambda>word. py_in word (text_clean p)) header_exclusions)"

text \<open>\<open>skills_start\<close>, with \<open>None\<close> for \<open>-1\<close>.\<close>

definition find_skills_start :: "para list \<Rightarrow> nat option" where
  "find_skills_start ps =
     (case find_first is_exact_header ps of
        Some i \<Rightarrow> Some i
      | None \<Rightarrow> find_first is_loose_header ps)"

definition next_section_keywords :: "string list" where
  "next_section_keywords = [''EXPERIENCE'', ''EDUCATION'', ''PROJECTS'', ''CERTIFICATIONS'',
                            ''LANGUAGES'', ''AWARDS'', ''PUBLICATIONS'', ''WORK EXPERIENCE'',
                            ''PROFESSIONAL EXPERIENCE'', ''TRAINING'', ''CERTIFICATES'']"

definition is_section_end :: "para \<Rightarrow> bool" where
  "is_section_end p =
     (list_ex (\<lambda>keyword. py_in keyword (text_clean p)) next_section_keywords \<and>
      py_len (text_clean p) < 50)"

definition find_skills_end :: "para list \<Rightarrow> nat \<Rightarrow> nat" where
  "find_skills_end ps skills_start =
     (case find_first is_section_end (drop (Suc skills_start) ps) of
        Some j \<Rightarrow> Suc skills_start + j
      | None \<Rightarrow> length ps)"

record existing_skills =
  soft_skills :: "string list"
  hard_skills :: "string list"
  raw_lines :: "string list"

definition tech_words :: "string list" where
  "tech_words = [''python'', ''machine learning'', ''docker'', ''sql'', ''programming'']"

definition soft_words :: "string list" where
  "soft_words = [''communication'', ''teamwork'', ''problem'', ''creativity'', ''leadership'']"

text \<open>The body of the second loop of \<open>extract_existing_skills\<close>, for one line.\<close>

definition classify_line :: "existing_skills \<Rightarrow> string \<Rightarrow> existing_skills" where
  "classify_line acc txt =
     (let text_lower = lower txt in
      if py_in ''soft skill'' text_lower then
        (let skills_part = re_split_label ''soft skill'' txt in
         if 1 < length skills_part
         then acc\<lparr>soft_skills := soft_skills acc @ skill_items (skills_part ! 1)\<rparr>
         else acc)
      else if py_in ''hard skill'' text_lower then
        (let skills_part = re_split_label ''hard skill'' txt in
         if 1 < length skills_part
         then acc\<lparr>hard_skills := hard_skills acc @ skill_items (skills_part ! 1)\<rparr>
         else acc)
      else
        (let found = skill_items txt in
         if list_ex (\<lambda>tech_word. py_in tech_word text_lower) tech_words
         then acc\<lparr>hard_skills := hard_skills acc @ found\<rparr>
         else if list_ex (\<lambda>soft_word. py_in soft_word text_lower) soft_words
         then acc\<lparr>soft_skills := soft_skills acc @ found\<rparr>
         else acc\<lparr>hard_skills := hard_skills acc @ found\<rparr>))"

definition extract_existing_skills :: "para list \<Rightarrow> nat \<Rightarrow> nat \<Rightarrow> existing_skills" where
  "extract_existing_skills ps skills_start skills_end =
     (let section = take (skills_end - Suc skills_start) (drop (Suc skills_start) ps);
          raw = filter (\<lambda>t. t \<noteq> []) (map (\<lambda>p. strip (para_text p)) section)
      in foldl classify_line \<lparr>soft_skills = [], hard_skills = [], raw_lines = raw\<rparr> raw)"

text \<open>The case-insensitive deduplication, which keeps the first spelling seen.\<close>

fun dedup :: "string set \<Rightarrow> string list \<Rightarrow> string list" where
  "dedup seen [] = []"
| "dedup seen (skill # rest) =
     (let skill_lower = strip (lower skill) in
      if skill_lower \<notin> seen \<and> skill_lower \<noteq> []
      then strip skill # dedup (insert skill_lower seen) rest
      else dedup seen rest)"

text \<open>
  \<open>p.getparent().remove(p)\<close> for \<open>p = doc.paragraphs[i]\<close>, and
  \<open>doc.paragraphs[i]._element.addnext(q)\<close>. An index out of range raises.
\<close>

definition remove_at :: "nat \<Rightarrow> para list \<Rightarrow> error + para list" where
  "remove_at i ps = (if i < length ps then Inr (take i ps @ drop (Suc i) ps) else Inl IndexError)"

fun remove_all :: "nat list \<Rightarrow> para list \<Rightarrow> error + para list" where
  "remove_all [] ps = Inr ps"
| "remove_all (i # rest) ps = and_then (remove_at i ps) (remove_all rest)"

definition insert_after :: "nat \<Rightarrow> para \<Rightarrow> para list \<Rightarrow> error + para list" where
  "insert_after i q ps =
     (if i < length ps then Inr (take (Suc i) ps @ q # drop (Suc i) ps) else Inl IndexError)"

definition bullet_sep :: string where
  "bullet_sep = '' '' @ bullet @ '' ''"

text \<open>The optional soft-skills paragraph and its blank line; the new insert position.\<close>

definition insert_soft_skills ::
    "string list \<Rightarrow> nat \<Rightarrow> para list \<Rightarrow> error + (para list \<times> nat)" where
  "insert_soft_skills soft insert_position ps =
     (if soft \<noteq> [] then
        and_then (insert_after insert_position
                    (labelled_para ''Soft Skills: '' (join bullet_sep soft)) ps)
          (\<lambda>ps. and_then (insert_after (insert_position + 1) blank_para ps)
            (\<lambda>ps. Inr (ps, insert_position + 2)))
      else Inr (ps, insert_position))"

text \<open>
  \<open>export_docx\<close> on the opened document; the value is the document that is saved.
  \<open>doc.add_heading\<close> looks the style \<open>Heading 1\<close> up by its name, and raises
  \<open>KeyError\<close> when the document does not define it; a new paragraph with no style
  argument looks nothing up.
\<close>

definition rewrite_skills_section ::
    "string list \<Rightarrow> para list \<Rightarrow> string list \<Rightarrow> error + para list" where
  "rewrite_skills_section doc_styles ps tailored_skills =
     (case find_skills_start ps of
        Some skills_start \<Rightarrow>
          (let skills_end = find_skills_end ps skills_start;
               existing_skills_data = extract_existing_skills ps skills_start skills_end;
               paragraphs_to_remove = [Suc skills_start..<skills_end];
               all_hard_skills = hard_skills existing_skills_data @ tailored_skills;
               merged_skills = dedup {} all_hard_skills;
               insert_position = skills_start + 1
           in and_then (remove_all (rev paragraphs_to_remove) ps)
                (\<lambda>ps. and_then (insert_after skills_start blank_para ps)
                  (\<lambda>ps. and_then (insert_soft_skills (soft_skills existing_skills_data)
                                     insert_position ps)
                    (\<lambda>(ps, insert_position).
                       and_then (insert_after insert_position
                                   (labelled_para ''Hard Skills: ''
                                      (join bullet_sep merged_skills)) ps)
                         (\<lambda>ps. insert_after (insert_position + 1) blank_para ps)))))
      | None \<Rightarrow>
          (if ''Heading 1'' \<in> set doc_styles
           then Inr (ps @ [page_break_para,
                           heading_para ''TECHNICAL SKILLS'' 1,
                           labelled_para ''Hard Skills: '' (join bullet_sep tailored_skills)])
           else Inl (KeyError ''Heading 1'')))"

definition export_docx :: "filesystem \<Rightarrow> string \<Rightarrow> string list \<Rightarrow> error + para list" where
  "export_docx fs original_path tailored_skills =
     (if fs original_path = None
      then Inl (FileNotFoundError (''File not found: '' @ original_path))
      else and_then (open_document fs original_path)
             (\<lambda>(doc_styles, doc). rewrite_skills_section doc_styles doc tailored_skills))"

text \<open>A paragraph whose text begins with the label of the hard skills.\<close>

definition is_hard_skills_para :: "para \<Rightarrow> bool" where
  "is_hard_skills_para p = prefix ''Hard Skills:'' (para_text p)"

section \<open>CV parser\<close>








section \<open>Example inputs\<close>

definition no_personal_info :: PersonalInfo where
  "no_personal_info =
     \<lparr> name = [], email = [], phone = [], location = [], linkedin = [], github = [] \<rparr>"

definition cv_python :: CVData where
  "cv_python = \<lparr> personal_info = no_personal_info,
                   skills = [(''technical'', SkillList [''python''])],
                   raw_text = ''Python developer'',
                   original_file_path = ''cv.docx'' \<rparr>"

definition cv_python_aws :: CVData where
  "cv_python_aws = cv_python\<lparr> skills := [(''technical'', SkillList [''python'', ''AWS''])] \<rparr>"

definition job_backend :: JobRequirements where
  "job_backend = \<lparr> job_title = ''Backend Engineer'', company = ''Acme'',
                     required_skills = [''Python'', ''aws'', ''sql''],
                     preferred_skills = [''docker''],
                     all_skills = [''Python'', ''aws'', ''sql'', ''docker''],
                     responsibilities = [] \<rparr>"

definition job_no_skills :: JobRequirements where
  "job_no_skills = job_backend\<lparr> required_skills := [], preferred_skills := [] \<rparr>"

definition posting_unlabelled :: string where
  "posting_unlabelled = ''go r sql git aws gcp css php vue api''"

definition plain_para :: "string \<Rightarrow> para" where
  "plain_para txt = Paragraph ''Normal'' [Run txt None None None]"

definition java_sql_python :: string where
  "java_sql_python = ''Java '' @ bullet @ '' SQL '' @ bullet @ '' Python''"

definition java_sql_python_lower :: string where
  "java_sql_python_lower = ''Java '' @ bullet @ '' SQL '' @ bullet @ '' python''"

text \<open>A file system with one file, \<open>cv.docx\<close> or \<open>cv.pdf\<close>.\<close>

definition only_file :: "string \<Rightarrow> file_content \<Rightarrow> filesystem" where
  "only_file file_name content = (\<lambda>p. if p = file_name then Some content else None)"

text \<open>The styles of a document made from the default template, in part.\<close>

definition word_styles :: "string list" where
  "word_styles = [''Normal'', ''Title'', ''Heading 1'', ''Heading 2'']"

definition rest_of_cv :: "para list" where
  "rest_of_cv = [plain_para ''Acme Corp, 2020 - 2024'', plain_para ''EDUCATION'']"

definition cv_with_section :: "string \<Rightarrow> para list" where
  "cv_with_section line =
     plain_para ''SKILLS'' # plain_para line # plain_para ''EXPERIENCE'' # rest_of_cv"

definition rest_with_hard_skills :: "para list" where
  "rest_with_hard_skills = [plain_para (''Hard Skills: '' @ java_sql_python)]"

definition cv_without_header :: "para list" where
  "cv_without_header = [plain_para ''Jane Doe'', plain_para ''Work skills and projects'',
                        plain_para ''Acme Corp, 2020 - 2024'']"

section \<open>Properties of the keyword extractor\<close>

lemma technical_skills_nonempty: "[] \<notin> set technical_skills"
  by (simp add: technical_skills_def)

lemma search_word_Nil: "\<not> search_word w []"
  by (simp add: search_word_def word_match_at_def word_boundary_def word_before_def
      word_after_def)

lemma extract_cases:
  assumes "s \<in> extract_skills_from_text t"
  shows "(s \<in> set technical_skills \<and> search_word s (lower t)) \<or>
         (s = ''machine learning'' \<and> search_word ''ml'' (lower t)) \<or>
         (s = ''artificial intelligence'' \<and> search_word ''ai'' (lower t)) \<or>
         (s = ''javascript'' \<and> search_word ''js'' (lower t))"
  using assms by (auto simp: extract_skills_from_text_def Let_def split: if_splits)

lemma extract_empty: "extract_skills_from_text [] = {}"
  using extract_cases [of _ "[]"] search_word_Nil by (auto simp: lower_def)

lemma extract_subset_vocabulary: "extract_skills_from_text t \<subseteq> set technical_skills"
proof
  fix s assume "s \<in> extract_skills_from_text t"
  from extract_cases [OF this] show "s \<in> set technical_skills"
    by (auto simp: technical_skills_def)
qed

lemma finite_extract: "finite (extract_skills_from_text t)"
  using extract_subset_vocabulary by (rule finite_subset) simp

text \<open>
  C4. The result is within the vocabulary, the empty text gives the empty set, and
  \<open>javascript\<close> is not found in \<open>typescript\<close>. The matching is not whole-word for the
  two terms that end in a character outside \<open>\w\<close>: the closing \<open>\b\<close> then asks for a
  word character right after the term. So \<open>c#\<close> is found inside the longer \<open>c#y\<close> and
  \<open>c++\<close> inside \<open>c++x\<close>, and neither is found where it stands as a word of its own.
\<close>

theorem extract_skills_not_whole_word:
  "extract_skills_from_text t \<subseteq>
     set technical_skills \<union> {''machine learning'', ''artificial intelligence'', ''javascript''}
   \<and> extract_skills_from_text [] = {}
   \<and> ''javascript'' \<notin> extract_skills_from_text ''typescript''
   \<and> ''c#'' \<in> extract_skills_from_text ''c#y''
   \<and> ''c++'' \<in> extract_skills_from_text ''c++x''
   \<and> ''c#'' \<notin> extract_skills_from_text ''C# and SQL''
   \<and> ''c++'' \<notin> extract_skills_from_text ''C++''"
proof (intro conjI)
  show "extract_skills_from_text t \<subseteq>
     set technical_skills \<union> {''machine learning'', ''artificial intelligence'', ''javascript''}"
    using extract_subset_vocabulary by blast
  show "extract_skills_from_text [] = {}"
    by (fact extract_empty)
  show "''javascript'' \<notin> extract_skills_from_text ''typescript''"
    by code_simp
  show "''c#'' \<in> extract_skills_from_text ''c#y''"
    by code_simp
  show "''c++'' \<in> extract_skills_from_text ''c++x''"
    by code_simp
  show "''c#'' \<notin> extract_skills_from_text ''C# and SQL''"
    by code_simp
  show "''c++'' \<notin> extract_skills_from_text ''C++''"
    by code_simp
qed

section \<open>Properties of float rounding\<close>

lemma round_half_even_of_int: "round_half_even (of_int n) = n"
  by (simp add: round_half_even_def)

lemma round_half_even_floor:
  "\<lfloor>q\<rfloor> \<le> round_half_even q" "round_half_even q \<le> \<lfloor>q\<rfloor> + 1"
  by (simp_all add: round_half_even_def Let_def)

lemma round_half_even_mono:
  assumes "x \<le> y"
  shows "round_half_even x \<le> round_half_even y"
proof (cases "\<lfloor>x\<rfloor> = \<lfloor>y\<rfloor>")
  case True
  with assms have "x - of_int \<lfloor>x\<rfloor> \<le> y - of_int \<lfloor>x\<rfloor>" by simp
  with True show ?thesis
    by (auto simp: round_half_even_def Let_def)
next
  case False
  with assms have "\<lfloor>x\<rfloor> + 1 \<le> \<lfloor>y\<rfloor>"
    using floor_mono [of x y] by linarith
  with round_half_even_floor [of x] round_half_even_floor [of y] show ?thesis
    by linarith
qed

lemma binade_bounds:
  assumes "0 < x"
  shows "2 powi binade x \<le> x" "x < 2 powi (binade x + 1)"
proof -
  obtain p q where pq: "quotient_of x = (p, q)" by (cases "quotient_of x")
  then have q: "0 < q" and x: "x = of_int p / of_int q"
    using quotient_of_denom_pos quotient_of_div by blast+
  with assms have p: "0 < p"
    by (simp add: zero_less_divide_iff)
  define a where "a = bitlen p"
  define b where "b = bitlen q"
  from bitlen_bounds [OF p] have pa: "2 ^ nat (a - 1) \<le> p" "p < 2 ^ nat a"
    by (simp_all add: a_def)
  from bitlen_bounds [OF q] have qb: "2 ^ nat (b - 1) \<le> q" "q < 2 ^ nat b"
    by (simp_all add: b_def)
  have a1: "1 \<le> a"
    using p bitlen_nonneg [of p] bitlen_eq_zero_iff [of p] unfolding a_def by linarith
  have b1: "1 \<le> b"
    using q bitlen_nonneg [of q] bitlen_eq_zero_iff [of q] unfolding b_def by linarith
  have "(of_int (2 ^ nat (a - 1)) :: rat) \<le> of_int p" "(of_int p :: rat) < of_int (2 ^ nat a)"
    using pa by (simp_all only: of_int_le_iff of_int_less_iff)
  with a1 have pa': "(2::rat) powi (a - 1) \<le> of_int p" "of_int p < (2::rat) powi a"
    by (simp_all add: power_int_def)
  have "(of_int (2 ^ nat (b - 1)) :: rat) \<le> of_int q" "(of_int q :: rat) < of_int (2 ^ nat b)"
    using qb by (simp_all only: of_int_le_iff of_int_less_iff)
  with b1 have qb': "(2::rat) powi (b - 1) \<le> of_int q" "of_int q < (2::rat) powi b"
    by (simp_all add: power_int_def)
  have qpos: "(0::rat) < of_int q" using q by simp
  have ppos: "(0::rat) < of_int p" using p by simp
  have lo: "(2::rat) powi (a - b - 1) < x"
  proof -
    have "(2::rat) powi (a - b - 1) = 2 powi (a - 1) / 2 powi b"
      by (simp add: power_int_diff)
    also have "\<dots> \<le> of_int p / 2 powi b"
      using pa'(1) by (simp add: divide_right_mono)
    also have "\<dots> < of_int p / of_int q"
      using qb'(2) qpos ppos by (simp add: divide_strict_left_mono)
    finally show ?thesis by (simp add: x)
  qed
  have hi: "x < (2::rat) powi (a - b + 1)"
  proof -
    have "x = of_int p / of_int q" by (fact x)
    also have "\<dots> < 2 powi a / of_int q"
      using pa'(2) qpos by (simp add: divide_strict_right_mono)
    also have "\<dots> \<le> 2 powi a / 2 powi (b - 1)"
      using qb'(1) qpos by (intro divide_left_mono) (auto intro: mult_pos_pos)
    also have "\<dots> = 2 powi (a - b + 1)"
      by (simp add: power_int_diff [symmetric] algebra_simps)
    finally show ?thesis .
  qed
  have k: "bitlen (fst (quotient_of x)) - bitlen (snd (quotient_of x)) = a - b"
    by (simp add: pq a_def b_def)
  show "2 powi binade x \<le> x"
    using lo unfolding binade_def k Let_def by (auto simp: less_imp_le)
  show "x < 2 powi (binade x + 1)"
    using hi unfolding binade_def k Let_def by (auto simp: not_le)
qed

lemma binade_mono:
  assumes "0 < x" "x \<le> y"
  shows "binade x \<le> binade y"
proof -
  from assms have y: "0 < y" by simp
  have "(2::rat) powi binade x \<le> x" using binade_bounds(1) [OF assms(1)] .
  also have "x \<le> y" by fact
  also have "y < 2 powi (binade y + 1)" using binade_bounds(2) [OF y] .
  finally have "(2::rat) powi binade x < 2 powi (binade y + 1)" .
  moreover have "(2::rat) powi (binade y + 1) \<le> 2 powi binade x" if "binade y + 1 \<le> binade x"
    using that by (intro power_int_increasing) simp_all
  ultimately show ?thesis by force
qed

lemma fl_range:
  assumes "0 < x"
  shows "2 powi binade x \<le> fl x" "fl x \<le> 2 powi (binade x + 1)"
proof -
  define e where "e = binade x"
  define u :: rat where "u = 2 powi (e - 52)"
  have u: "0 < u" by (simp add: u_def zero_less_power_int)
  from assms have flx: "fl x = of_int (round_half_even (x / u)) * u"
    by (simp add: fl_def u_def e_def Let_def)
  have lo: "of_int (2 ^ 52) \<le> x / u"
  proof -
    have "(2::rat) powi e = of_int (2 ^ 52) * u"
      by (simp add: u_def power_int_diff)
    with binade_bounds(1) [OF assms] u show ?thesis
      by (simp add: e_def pos_le_divide_eq)
  qed
  have hi: "x / u \<le> of_int (2 ^ 53)"
  proof -
    have "(2::rat) powi (e + 1) = of_int (2 ^ 53) * u"
      by (simp add: u_def power_int_diff power_int_add)
    with binade_bounds(2) [OF assms] u show ?thesis
      by (simp add: e_def pos_divide_le_eq)
  qed
  from round_half_even_mono [OF lo] have "2 ^ 52 \<le> round_half_even (x / u)"
    by (simp only: round_half_even_of_int)
  then have "(of_int (2 ^ 52) :: rat) \<le> of_int (round_half_even (x / u))"
    by (simp only: of_int_le_iff)
  then have "of_int (2 ^ 52) * u \<le> fl x"
    using u by (simp only: flx mult_le_cancel_right_pos)
  then show "2 powi binade x \<le> fl x"
    by (simp add: u_def e_def power_int_diff)
  from round_half_even_mono [OF hi] have "round_half_even (x / u) \<le> 2 ^ 53"
    by (simp only: round_half_even_of_int)
  then have "(of_int (round_half_even (x / u)) :: rat) \<le> of_int (2 ^ 53)"
    by (simp only: of_int_le_iff)
  then have "fl x \<le> of_int (2 ^ 53) * u"
    using u by (simp only: flx mult_le_cancel_right_pos)
  then show "fl x \<le> 2 powi (binade x + 1)"
    by (simp add: u_def e_def power_int_diff power_int_add)
qed

lemma fl_mono:
  assumes "0 \<le> x" "x \<le> y"
  shows "fl x \<le> fl y"
proof (cases "x = 0")
  case True
  show ?thesis
  proof (cases "y = 0")
    case True
    with \<open>x = 0\<close> show ?thesis by simp
  next
    case False
    with assms True have "0 < y" by simp
    from fl_range(1) [OF this] have "0 < fl y"
      by (rule less_le_trans [rotated]) (simp add: zero_less_power_int)
    with True show ?thesis by (simp add: fl_def)
  qed
next
  case False
  with assms have x: "0 < x" and y: "0 < y" by simp_all
  show ?thesis
  proof (cases "binade x = binade y")
    case True
    define u :: rat where "u = 2 powi (binade y - 52)"
    have u: "0 < u" by (simp add: u_def zero_less_power_int)
    from assms(2) u have "x / u \<le> y / u" by (simp add: divide_right_mono)
    from round_half_even_mono [OF this]
    have "(of_int (round_half_even (x / u)) :: rat) \<le> of_int (round_half_even (y / u))"
      by (simp only: of_int_le_iff)
    then have "of_int (round_half_even (x / u)) * u \<le> of_int (round_half_even (y / u)) * u"
      using u by (simp only: mult_le_cancel_right_pos)
    with x y True show ?thesis
      by (simp add: fl_def Let_def u_def)
  next
    case False
    with binade_mono [OF x assms(2)] have "binade x + 1 \<le> binade y" by simp
    then have "(2::rat) powi (binade x + 1) \<le> 2 powi binade y"
      by (intro power_int_increasing) simp_all
    with fl_range(2) [OF x] fl_range(1) [OF y] show ?thesis by linarith
  qed
qed

lemma fl_nonneg: "0 \<le> x \<Longrightarrow> 0 \<le> fl x"
  using fl_mono [of 0 x] by (simp add: fl_def)

section \<open>Properties of the match scorer\<close>

lemma fl_pos: "0 < x \<Longrightarrow> 0 < fl x"
  using fl_range(1) [of x] by (rule_tac less_le_trans [of _ "2 powi binade x"]) (simp_all add: zero_less_power_int)

lemma lit_pos: "0 < lit_0_7" "0 < lit_0_3"
  by (simp_all add: lit_0_7_def lit_0_3_def fl_pos)

lemma round1_mono:
  assumes "0 \<le> x" "x \<le> y"
  shows "round1 x \<le> round1 y"
proof -
  from assms have "round_half_even (x * 10) \<le> round_half_even (y * 10)"
    by (intro round_half_even_mono) simp
  then have le: "(of_int (round_half_even (x * 10)) :: rat) / 10 \<le> of_int (round_half_even (y * 10)) / 10"
    by simp
  from assms(1) have "0 \<le> \<lfloor>x * 10\<rfloor>" by simp
  with round_half_even_floor(1) [of "x * 10"] have "0 \<le> round_half_even (x * 10)"
    by linarith
  then have "(0::rat) \<le> of_int (round_half_even (x * 10)) / 10" by simp
  from fl_mono [OF this le] show ?thesis by (simp add: round1_def)
qed

lemma score_of_nonneg: "0 \<le> score_of m j"
  by (simp add: score_of_def fl_nonneg)

lemma score_of_mono:
  assumes "finite m'" "m \<subseteq> m'"
  shows "score_of m j \<le> score_of m' j"
proof (cases "j = {}")
  case True
  then show ?thesis by (simp add: score_of_def)
next
  case False
  from assms have "card m \<le> card m'" by (simp add: card_mono)
  then have "(of_nat (card m) :: rat) / of_nat (card j) \<le> of_nat (card m') / of_nat (card j)"
    by (simp add: divide_right_mono)
  then have "fl (of_nat (card m) / of_nat (card j)) \<le> fl (of_nat (card m') / of_nat (card j))"
    by (intro fl_mono) simp_all
  then have "fl (fl (of_nat (card m) / of_nat (card j)) * 100) \<le> fl (fl (of_nat (card m') / of_nat (card j)) * 100)"
    by (intro fl_mono mult_nonneg_nonneg fl_nonneg) simp_all
  with False show ?thesis by (simp add: score_of_def)
qed

lemma overall_mono:
  assumes "0 \<le> r" "r \<le> r'" "0 \<le> p" "p \<le> p'"
  shows "fl (fl (r * lit_0_7) + fl (p * lit_0_3)) \<le> fl (fl (r' * lit_0_7) + fl (p' * lit_0_3))"
proof -
  have a: "fl (r * lit_0_7) \<le> fl (r' * lit_0_7)"
    using assms lit_pos by (intro fl_mono) (simp_all add: mult_right_mono)
  have b: "fl (p * lit_0_3) \<le> fl (p' * lit_0_3)"
    using assms lit_pos by (intro fl_mono) (simp_all add: mult_right_mono)
  have "0 \<le> fl (r * lit_0_7)" "0 \<le> fl (p * lit_0_3)"
    using assms lit_pos by (simp_all add: fl_nonneg)
  with a b show ?thesis by (intro fl_mono) simp_all
qed

lemma scores_mono:
  assumes sub: "cv_skill_set (skills cv) \<subseteq> cv_skill_set (skills cv')"
  shows "required_score (calculate_match_score cv job) \<le> required_score (calculate_match_score cv' job)"
    and "preferred_score (calculate_match_score cv job) \<le> preferred_score (calculate_match_score cv' job)"
    and "overall_score (calculate_match_score cv job) \<le> overall_score (calculate_match_score cv' job)"
proof -
  define R where "R = set (map lower (required_skills job))"
  define P where "P = set (map lower (preferred_skills job))"
  define c where "c = cv_skill_set (skills cv)"
  define c' where "c' = cv_skill_set (skills cv')"
  have fin: "finite (c' \<inter> R)" "finite (c' \<inter> P)" by (simp_all add: R_def P_def)
  from sub have "c \<inter> R \<subseteq> c' \<inter> R" "c \<inter> P \<subseteq> c' \<inter> P" by (auto simp: c_def c'_def)
  with fin have r: "score_of (c \<inter> R) R \<le> score_of (c' \<inter> R) R"
    and p: "score_of (c \<inter> P) P \<le> score_of (c' \<inter> P) P"
    by (simp_all add: score_of_mono)
  show "required_score (calculate_match_score cv job) \<le> required_score (calculate_match_score cv' job)"
    using round1_mono [OF score_of_nonneg r]
    by (simp add: calculate_match_score_def Let_def R_def c_def c'_def)
  show "preferred_score (calculate_match_score cv job) \<le> preferred_score (calculate_match_score cv' job)"
    using round1_mono [OF score_of_nonneg p]
    by (simp add: calculate_match_score_def Let_def P_def c_def c'_def)
  have "0 \<le> fl (fl (score_of (c \<inter> R) R * lit_0_7) + fl (score_of (c \<inter> P) P * lit_0_3))"
    using lit_pos by (intro fl_nonneg add_nonneg_nonneg mult_nonneg_nonneg score_of_nonneg) simp_all
  from round1_mono [OF this overall_mono [OF score_of_nonneg r score_of_nonneg p]]
  show "overall_score (calculate_match_score cv job) \<le> overall_score (calculate_match_score cv' job)"
    by (simp add: calculate_match_score_def Let_def R_def P_def c_def c'_def)
qed

lemma cv_skill_set_append:
  "cv_skill_set (xs @ ys) = cv_skill_set xs \<union> cv_skill_set ys"
  by (induction xs rule: cv_skill_set.induct) auto

text \<open>
  C3. For the required skills and for the preferred skills alike, the matched and the
  missing lists of the result have no member in common, and together they hold
  exactly the lower-cased skills of the job.
\<close>

theorem match_sets_partition:
  "set (matched_required (calculate_match_score cv job)) \<inter>
     set (missing_required (calculate_match_score cv job)) = {}
   \<and> set (matched_required (calculate_match_score cv job)) \<union>
     set (missing_required (calculate_match_score cv job)) = set (map lower (required_skills job))
   \<and> set (matched_preferred (calculate_match_score cv job)) \<inter>
     set (missing_preferred (calculate_match_score cv job)) = {}
   \<and> set (matched_preferred (calculate_match_score cv job)) \<union>
     set (missing_preferred (calculate_match_score cv job)) = set (map lower (preferred_skills job))"
  by (auto simp: calculate_match_score_def Let_def)

lemma round1_100: "round1 100 = 100"
  by code_simp

lemma overall_100: "round1 (fl (fl (100 * lit_0_7) + fl (100 * lit_0_3))) = 100"
  by code_simp

text \<open>
  C5. When the job has no required and no preferred skill, the three scores of the
  result are 100, whatever the profile.
\<close>

theorem empty_requirements_score_100:
  assumes "required_skills job = []" "preferred_skills job = []"
  shows "required_score (calculate_match_score cv job) = 100
       \<and> preferred_score (calculate_match_score cv job) = 100
       \<and> overall_score (calculate_match_score cv job) = 100"
  using assms round1_100 overall_100
  by (simp add: calculate_match_score_def Let_def score_of_def)

theorem empty_requirements_score_100_witness:
  "required_skills job_no_skills = [] \<and> preferred_skills job_no_skills = []
   \<and> required_score (calculate_match_score cv_python job_no_skills) = 100
   \<and> preferred_score (calculate_match_score cv_python job_no_skills) = 100
   \<and> overall_score (calculate_match_score cv_python job_no_skills) = 100"
proof -
  have h: "required_skills job_no_skills = []" "preferred_skills job_no_skills = []"
    by (simp_all add: job_no_skills_def)
  from empty_requirements_score_100 [OF h, of cv_python] h show ?thesis by simp
qed

text \<open>
  C6. When a skill that is, up to case, among the job's required or preferred skills
  is added to the candidate's skill set, none of the three scores decreases.
\<close>

theorem match_score_monotonic:
  assumes "lower s \<in> set (map lower (required_skills job)) \<union> set (map lower (preferred_skills job))"
    and "cv_skill_set (skills cv') = insert (lower s) (cv_skill_set (skills cv))"
  shows "required_score (calculate_match_score cv job) \<le> required_score (calculate_match_score cv' job)
       \<and> preferred_score (calculate_match_score cv job) \<le> preferred_score (calculate_match_score cv' job)
       \<and> overall_score (calculate_match_score cv job) \<le> overall_score (calculate_match_score cv' job)"
proof -
  from assms(2) have "cv_skill_set (skills cv) \<subseteq> cv_skill_set (skills cv')" by auto
  from scores_mono [OF this] show ?thesis by simp
qed

theorem match_score_monotonic_witness:
  "lower ''AWS'' \<in> set (map lower (required_skills job_backend))
                    \<union> set (map lower (preferred_skills job_backend))
   \<and> cv_skill_set (skills cv_python_aws) = insert (lower ''AWS'') (cv_skill_set (skills cv_python))
   \<and> required_score (calculate_match_score cv_python job_backend)
        \<le> required_score (calculate_match_score cv_python_aws job_backend)
   \<and> preferred_score (calculate_match_score cv_python job_backend)
        \<le> preferred_score (calculate_match_score cv_python_aws job_backend)
   \<and> overall_score (calculate_match_score cv_python job_backend)
        \<le> overall_score (calculate_match_score cv_python_aws job_backend)"
proof -
  have h1: "lower ''AWS'' \<in> set (map lower (required_skills job_backend))
                    \<union> set (map lower (preferred_skills job_backend))"
    by code_simp
  have h2: "cv_skill_set (skills cv_python_aws)
              = insert (lower ''AWS'') (cv_skill_set (skills cv_python))"
    by code_simp
  from match_score_monotonic [OF h1 h2] h1 h2 show ?thesis by blast
qed

section \<open>Properties of the job description analyzer\<close>

lemma enumerates_set: "enumerates enum \<Longrightarrow> finite s \<Longrightarrow> set (enum s) = s"
  by (simp add: enumerates_def)

lemma enumerates_distinct: "enumerates enum \<Longrightarrow> finite s \<Longrightarrow> distinct (enum s)"
  by (simp add: enumerates_def)

lemma enumerates_empty: "enumerates enum \<Longrightarrow> enum {} = []"
  using enumerates_set [of enum "{}"] by simp

lemma enumerates_sorted_list_of_set: "enumerates sorted_list_of_set"
  by (simp add: enumerates_def)

lemma sort_enum:
  assumes "enumerates enum" "finite s"
  shows "sort (enum s) = sorted_list_of_set s"
proof -
  have "sorted_list_of_set (set (enum s)) = sort (remdups (enum s))"
    by (rule sorted_list_of_set_sort_remdups)
  with assms show ?thesis
    by (simp add: enumerates_set enumerates_distinct distinct_remdups_id)
qed

text \<open>
  C10. Whatever order Python gives the sets, the required and the preferred list of
  the analyzer have no skill in common, together they hold exactly the skills of the
  list of all skills, and each of them is sorted and free of duplicates.
\<close>

theorem job_skills_partition:
  assumes en: "enumerates enum"
  shows "set (required (extract_skills_from_job enum txt))
           \<inter> set (preferred (extract_skills_from_job enum txt)) = {}
       \<and> set (required (extract_skills_from_job enum txt))
           \<union> set (preferred (extract_skills_from_job enum txt))
         = set (all_found (extract_skills_from_job enum txt))
       \<and> sorted (required (extract_skills_from_job enum txt))
       \<and> distinct (required (extract_skills_from_job enum txt))
       \<and> sorted (preferred (extract_skills_from_job enum txt))
       \<and> distinct (preferred (extract_skills_from_job enum txt))"
proof -
  define A where "A = extract_skills_from_text txt"
  define rt where "rt = find_required_text (lower txt)"
  define isr where "isr = (\<lambda>skill. rt \<noteq> [] \<and> py_in skill rt)"
  define R where "R = enum (set (filter isr (enum A)))"
  define P where "P = enum (set (filter (\<lambda>skill. \<not> isr skill) (enum A)))"
  define k where "k = split_point_of (length R)"
  have finA: "finite A" by (simp add: A_def finite_extract)
  have setA: "set (enum A) = A" using en finA by (rule enumerates_set)
  have "set R = set (filter isr (enum A))"
    unfolding R_def using en by (rule enumerates_set) simp
  with setA have setR: "set R = {x \<in> A. isr x}" by simp
  have "set P = set (filter (\<lambda>skill. \<not> isr skill) (enum A))"
    unfolding P_def using en by (rule enumerates_set) simp
  with setA have setP: "set P = {x \<in> A. \<not> isr x}" by simp
  have dR: "distinct R" unfolding R_def using en by (rule enumerates_distinct) simp
  have dP: "distinct P" unfolding P_def using en by (rule enumerates_distinct) simp
  have res: "extract_skills_from_job enum txt =
      \<lparr> required = sort (if P = [] \<and> 3 < length R then take k R else R),
        preferred = sort (if P = [] \<and> 3 < length R then drop k R else P),
        all_found = sort (enum A) \<rparr>"
    by (simp add: extract_skills_from_job_def Let_def A_def rt_def isr_def R_def P_def k_def)
  have allf: "set (all_found (extract_skills_from_job enum txt)) = A"
    by (simp add: res setA)
  show ?thesis
  proof (cases "P = [] \<and> 3 < length R")
    case True
    then have req: "required (extract_skills_from_job enum txt) = sort (take k R)"
      and pref: "preferred (extract_skills_from_job enum txt) = sort (drop k R)"
      by (simp_all add: res)
    from True have "{x \<in> A. \<not> isr x} = {}" using setP by simp
    with setR have RA: "set R = A" by auto
    have "set (take k R) \<inter> set (drop k R) = {}"
      using dR by (rule set_take_disj_set_drop_if_distinct) simp
    moreover have "set (take k R) \<union> set (drop k R) = A"
      using RA by (metis append_take_drop_id set_append)
    moreover have "distinct (take k R)" "distinct (drop k R)"
      using dR by simp_all
    ultimately show ?thesis
      by (simp add: req pref allf)
  next
    case False
    then have req: "required (extract_skills_from_job enum txt) = sort R"
      and pref: "preferred (extract_skills_from_job enum txt) = sort P"
      by (auto simp: res)
    have "set R \<inter> set P = {}" "set R \<union> set P = A"
      using setR setP by auto
    with dR dP show ?thesis
      by (simp add: req pref allf)
  qed
qed

theorem job_skills_partition_witness:
  "enumerates sorted_list_of_set
   \<and> set (required (extract_skills_from_job sorted_list_of_set ''Required: Python, SQL. Nice: Docker''))
           \<inter> set (preferred (extract_skills_from_job sorted_list_of_set ''Required: Python, SQL. Nice: Docker'')) = {}
   \<and> set (required (extract_skills_from_job sorted_list_of_set ''Required: Python, SQL. Nice: Docker''))
           \<union> set (preferred (extract_skills_from_job sorted_list_of_set ''Required: Python, SQL. Nice: Docker''))
         = set (all_found (extract_skills_from_job sorted_list_of_set ''Required: Python, SQL. Nice: Docker''))
   \<and> sorted (required (extract_skills_from_job sorted_list_of_set ''Required: Python, SQL. Nice: Docker''))
   \<and> distinct (required (extract_skills_from_job sorted_list_of_set ''Required: Python, SQL. Nice: Docker''))
   \<and> sorted (preferred (extract_skills_from_job sorted_list_of_set ''Required: Python, SQL. Nice: Docker''))
   \<and> distinct (preferred (extract_skills_from_job sorted_list_of_set ''Required: Python, SQL. Nice: Docker''))"
  using job_skills_partition [OF enumerates_sorted_list_of_set, of "''Required: Python, SQL. Nice: Docker''"]
    enumerates_sorted_list_of_set by (rule conjI [rotated])


lemma no_required_text_all_preferred:
  assumes en: "enumerates enum" and rt: "find_required_text (lower txt) = []"
  shows "required (extract_skills_from_job enum txt) = []"
    and "preferred (extract_skills_from_job enum txt)
           = sorted_list_of_set (extract_skills_from_text txt)"
proof -
  define A where "A = extract_skills_from_text txt"
  have finA: "finite A" by (simp add: A_def finite_extract)
  have setA: "set (enum A) = A" using en finA by (rule enumerates_set)
  have e: "enum {} = []" using en by (rule enumerates_empty)
  show "required (extract_skills_from_job enum txt) = []"
    by (simp add: extract_skills_from_job_def Let_def rt e)
  have "preferred (extract_skills_from_job enum txt) = sort (enum A)"
    by (simp add: extract_skills_from_job_def Let_def rt e A_def [symmetric] setA)
  also have "\<dots> = sorted_list_of_set A"
    using en finA by (rule sort_enum)
  finally show "preferred (extract_skills_from_job enum txt)
           = sorted_list_of_set (extract_skills_from_text txt)"
    by (simp add: A_def)
qed

lemma posting_unlabelled_skills:
  "sorted_list_of_set (extract_skills_from_text posting_unlabelled) =
     [''api'', ''aws'', ''css'', ''gcp'', ''git'', ''go'', ''php'', ''r'', ''sql'', ''vue'']"
  by code_simp

lemma posting_unlabelled_required_text:
  "find_required_text (lower posting_unlabelled) = []"
  by code_simp

text \<open>
  C2. A posting that names ten skills of the vocabulary and has no "required" or
  "must have" label: the analyzer puts none of them in the required list and all ten
  in the preferred list, so the 70/30 split is not applied.
\<close>

theorem unlabelled_posting_not_split:
  assumes "enumerates enum"
  shows "length (all_found (extract_skills_from_job enum posting_unlabelled)) = 10
       \<and> required (extract_skills_from_job enum posting_unlabelled) = []
       \<and> length (preferred (extract_skills_from_job enum posting_unlabelled)) = 10"
proof -
  have "all_found (extract_skills_from_job enum posting_unlabelled)
          = sorted_list_of_set (extract_skills_from_text posting_unlabelled)"
    using assms by (simp add: extract_skills_from_job_def Let_def sort_enum finite_extract)
  then show ?thesis
    using no_required_text_all_preferred [OF assms posting_unlabelled_required_text]
    by (simp add: posting_unlabelled_skills)
qed

theorem unlabelled_posting_not_split_witness:
  "enumerates sorted_list_of_set
   \<and> length (all_found (extract_skills_from_job sorted_list_of_set posting_unlabelled)) = 10
   \<and> required (extract_skills_from_job sorted_list_of_set posting_unlabelled) = []
   \<and> length (preferred (extract_skills_from_job sorted_list_of_set posting_unlabelled)) = 10"
  using unlabelled_posting_not_split [OF enumerates_sorted_list_of_set]
    enumerates_sorted_list_of_set by (rule conjI [rotated])

section \<open>Properties of the CV exporter\<close>


lemma clean_SKILLS: "join '' '' (split_ws (upper (strip ''SKILLS''))) = ''SKILLS''"
  by code_simp

lemma clean_EXPERIENCE: "join '' '' (split_ws (upper (strip ''EXPERIENCE''))) = ''EXPERIENCE''"
  by code_simp

lemma clean_hard1:
  "join '' '' (split_ws (upper (strip ''Hard Skills: Java, SQL''))) = ''HARD SKILLS: JAVA, SQL''"
  by code_simp

lemma clean_hard2:
  "join '' '' (split_ws (upper (strip ''Hard Skills: Java, SQL, python'')))
     = ''HARD SKILLS: JAVA, SQL, PYTHON''"
  by code_simp

lemma header_SKILLS: "para_text h = ''SKILLS'' \<Longrightarrow> is_exact_header h"
  by (simp add: is_exact_header_def text_clean_def clean_SKILLS exact_headers_def)

lemma end_EXPERIENCE: "para_text e = ''EXPERIENCE'' \<Longrightarrow> is_section_end e"
proof -
  have "list_ex (\<lambda>keyword. py_in keyword ''EXPERIENCE'') next_section_keywords
        \<and> py_len ''EXPERIENCE'' < 50"
    by code_simp
  then show "para_text e = ''EXPERIENCE'' \<Longrightarrow> is_section_end e"
    by (simp add: is_section_end_def text_clean_def clean_EXPERIENCE)
qed

lemma not_end_hard1: "para_text s = ''Hard Skills: Java, SQL'' \<Longrightarrow> \<not> is_section_end s"
proof -
  have "\<not> list_ex (\<lambda>keyword. py_in keyword ''HARD SKILLS: JAVA, SQL'') next_section_keywords"
    by code_simp
  then show "para_text s = ''Hard Skills: Java, SQL'' \<Longrightarrow> \<not> is_section_end s"
    by (simp add: is_section_end_def text_clean_def clean_hard1)
qed

lemma not_end_hard2:
  "para_text s = ''Hard Skills: Java, SQL, python'' \<Longrightarrow> \<not> is_section_end s"
proof -
  have "\<not> list_ex (\<lambda>keyword. py_in keyword ''HARD SKILLS: JAVA, SQL, PYTHON'')
           next_section_keywords"
    by code_simp
  then show "para_text s = ''Hard Skills: Java, SQL, python'' \<Longrightarrow> \<not> is_section_end s"
    by (simp add: is_section_end_def text_clean_def clean_hard2)
qed

lemma existing1:
  "hard_skills (classify_line \<lparr>soft_skills = [], hard_skills = [], raw_lines = r\<rparr>
      (strip ''Hard Skills: Java, SQL'')) = [''Java'', ''SQL'']"
  "soft_skills (classify_line \<lparr>soft_skills = [], hard_skills = [], raw_lines = r\<rparr>
      (strip ''Hard Skills: Java, SQL'')) = []"
  "strip ''Hard Skills: Java, SQL'' \<noteq> []"
  by code_simp+


lemma existing2:
  "hard_skills (classify_line \<lparr>soft_skills = [], hard_skills = [], raw_lines = r\<rparr>
      (strip ''Hard Skills: Java, SQL, python'')) = [''Java'', ''SQL'', ''python'']"
  "soft_skills (classify_line \<lparr>soft_skills = [], hard_skills = [], raw_lines = r\<rparr>
      (strip ''Hard Skills: Java, SQL, python'')) = []"
  "strip ''Hard Skills: Java, SQL, python'' \<noteq> []"
  by code_simp+

lemma merged1:
  "join bullet_sep (dedup {} ([''Java'', ''SQL''] @ [''Python''])) = java_sql_python"
  by code_simp

lemma merged2:
  "join bullet_sep (dedup {} ([''Java'', ''SQL'', ''python''] @ [''Python''])) = java_sql_python_lower"
  by code_simp

lemma splice_section:
  assumes start: "find_skills_start (h # s # e # rest) = Some 0"
    and stop: "find_skills_end (h # s # e # rest) 0 = 2"
    and soft: "soft_skills (extract_existing_skills (h # s # e # rest) 0 2) = []"
  shows "rewrite_skills_section st (h # s # e # rest) tailored =
           Inr (h # blank_para
                  # labelled_para ''Hard Skills: ''
                      (join bullet_sep
                        (dedup {} (hard_skills (extract_existing_skills (h # s # e # rest) 0 2)
                                   @ tailored)))
                  # blank_para # e # rest)"
proof -
  have up: "[Suc 0..<2] = [Suc 0]" by (simp add: upt_rec)
  show ?thesis
    by (simp add: rewrite_skills_section_def start stop soft Let_def up and_then_def
        remove_at_def insert_after_def insert_soft_skills_def)
qed

lemma round_trip_section:
  assumes h: "para_text h = ''SKILLS''" and e: "para_text e = ''EXPERIENCE''"
    and ne: "\<not> is_section_end s"
  shows "find_skills_start (h # s # e # rest) = Some 0"
    and "find_skills_end (h # s # e # rest) 0 = 2"
    and "extract_existing_skills (h # s # e # rest) 0 2 =
          foldl classify_line \<lparr>soft_skills = [], hard_skills = [],
              raw_lines = filter (\<lambda>t. t \<noteq> []) [strip (para_text s)]\<rparr>
            (filter (\<lambda>t. t \<noteq> []) [strip (para_text s)])"
  using header_SKILLS [OF h] end_EXPERIENCE [OF e] ne
  by (simp_all add: find_skills_start_def find_skills_end_def extract_existing_skills_def Let_def)


lemma lower_char_cases:
  "lower_char c = c \<or> (c \<in> set ascii_uppercase \<and> lower_char c \<in> set ascii_lowercase)"
proof (cases "map_of (zip ascii_uppercase ascii_lowercase) c")
  case None
  then show ?thesis by (simp add: lower_char_def)
next
  case (Some d)
  then have "(c, d) \<in> set (zip ascii_uppercase ascii_lowercase)"
    by (rule map_of_SomeD)
  then have "c \<in> set ascii_uppercase" "d \<in> set ascii_lowercase"
    by (auto dest: set_zip_leftD set_zip_rightD)
  with Some show ?thesis by (simp add: lower_char_def)
qed

lemma letters_not_space:
  "c \<in> set ascii_uppercase \<Longrightarrow> \<not> is_space c"
  "c \<in> set ascii_lowercase \<Longrightarrow> \<not> is_space c"
  by (auto simp: ascii_uppercase_def ascii_lowercase_def is_space_def)

lemma is_space_lower_char: "is_space (lower_char c) = is_space c"
  using lower_char_cases [of c] letters_not_space by auto

lemma lower_char_stable:
  assumes "b \<notin> set ascii_uppercase" "b \<notin> set ascii_lowercase"
  shows "(lower_char c = b) = (c = b)"
  using lower_char_cases [of c] lower_char_cases [of b] assms by auto

lemma prefix_lower:
  assumes "\<forall>b\<in>set w. b \<notin> set ascii_uppercase \<and> b \<notin> set ascii_lowercase"
  shows "prefix w (map lower_char s) = prefix w s"
  using assms
proof (induction w arbitrary: s)
  case Nil
  show ?case by simp
next
  case (Cons b w)
  show ?case
  proof (cases s)
    case Nil
    then show ?thesis by simp
  next
    case (Cons c cs)
    from Cons.prems have "(lower_char c = b) = (c = b)"
      by (intro lower_char_stable) simp_all
    moreover from Cons.prems have "prefix w (map lower_char cs) = prefix w cs"
      by (intro Cons.IH) simp
    ultimately show ?thesis
      using Cons by auto
  qed
qed

lemma space_width_lower:
  assumes "\<forall>w\<in>set ws. \<forall>b\<in>set w. b \<notin> set ascii_uppercase \<and> b \<notin> set ascii_lowercase"
  shows "space_width ws (map lower_char s) = space_width ws s"
proof (cases s)
  case Nil
  then show ?thesis by (simp add: space_width_def)
next
  case (Cons c cs)
  have "find (\<lambda>w. prefix w (map lower_char s)) ws = find (\<lambda>w. prefix w s) ws"
    using assms by (intro find_cong refl) (simp add: prefix_lower)
  with Cons show ?thesis
    by (simp add: space_width_def is_space_lower_char)
qed

lemma lstrip_of_lower:
  assumes "\<forall>w\<in>set ws. \<forall>b\<in>set w. b \<notin> set ascii_uppercase \<and> b \<notin> set ascii_lowercase"
  shows "lstrip_of ws (map lower_char s) = map lower_char (lstrip_of ws s)"
  using assms
proof (induction ws s rule: lstrip_of.induct)
  case (1 ws)
  show ?case by simp
next
  case (2 ws c cs)
  have w: "space_width ws (lower_char c # map lower_char cs) = space_width ws (c # cs)"
    using space_width_lower [OF "2.prems", of "c # cs"] by (simp only: list.map)
  show ?case
  proof (cases "space_width ws (c # cs) = 0")
    case True
    with w show ?thesis by simp
  next
    case False
    with "2.IH" "2.prems" w show ?thesis by (simp add: drop_map)
  qed
qed

lemma unicode_spaces_stable:
  "\<forall>w\<in>set unicode_spaces. \<forall>b\<in>set w. b \<notin> set ascii_uppercase \<and> b \<notin> set ascii_lowercase"
  "\<forall>w\<in>set (map rev unicode_spaces).
     \<forall>b\<in>set w. b \<notin> set ascii_uppercase \<and> b \<notin> set ascii_lowercase"
  by code_simp+

lemma strip_lower: "strip (lower s) = lower (strip s)"
proof -
  have "strip (lower s) =
          rev (lstrip_of (map rev unicode_spaces)
                 (rev (map lower_char (lstrip_of unicode_spaces s))))"
    by (simp only: strip_def lower_def lstrip_of_lower [OF unicode_spaces_stable(1)])
  also have "\<dots> = rev (lstrip_of (map rev unicode_spaces)
                           (map lower_char (rev (lstrip_of unicode_spaces s))))"
    by (simp only: rev_map)
  also have "\<dots> = rev (map lower_char
                           (lstrip_of (map rev unicode_spaces)
                              (rev (lstrip_of unicode_spaces s))))"
    by (simp only: lstrip_of_lower [OF unicode_spaces_stable(2)])
  also have "\<dots> = lower (strip s)"
    by (simp only: strip_def lower_def rev_map)
  finally show ?thesis .
qed

lemma dedup_distinct_lower:
  "distinct (map lower (dedup seen xs)) \<and> lower ` set (dedup seen xs) \<inter> seen = {}"
proof (induction xs arbitrary: seen)
  case Nil
  show ?case by simp
next
  case (Cons skill rest)
  show ?case
  proof (cases "strip (lower skill) \<notin> seen \<and> strip (lower skill) \<noteq> []")
    case True
    from Cons.IH [of "insert (strip (lower skill)) seen"]
    have d: "distinct (map lower (dedup (insert (strip (lower skill)) seen) rest))"
      and i: "lower ` set (dedup (insert (strip (lower skill)) seen) rest)
                \<inter> insert (strip (lower skill)) seen = {}"
      by simp_all
    from i have "lower (strip skill) \<notin> lower ` set (dedup (insert (strip (lower skill)) seen) rest)"
      by (auto simp: strip_lower)
    moreover from i have "lower ` set (dedup (insert (strip (lower skill)) seen) rest) \<inter> seen = {}"
      by auto
    ultimately show ?thesis
      using True d by (auto simp: Let_def strip_lower)
  next
    case False
    with Cons.IH [of seen] show ?thesis by (auto simp: Let_def)
  qed
qed

lemma para_text_simps:
  "para_text blank_para = []"
  "para_text (labelled_para l t) = l @ t"
  "para_text (plain_para t) = t"
  "para_text page_break_para = []"
  "para_text (heading_para t n) = t"
  by (simp_all add: para_text_def blank_para_def labelled_para_def plain_para_def
      page_break_para_def heading_para_def)

lemma count_hard_skills:
  assumes "para_text h = ''SKILLS''" "para_text e = ''EXPERIENCE''"
  shows "length (filter is_hard_skills_para
           (h # blank_para # labelled_para ''Hard Skills: '' t # blank_para # e # rest))
         = Suc (length (filter is_hard_skills_para rest))"
  using assms by (simp add: is_hard_skills_para_def para_text_simps)

lemma export_opened:
  "fs p = Some (DocxFile st ps) \<Longrightarrow>
     export_docx fs p tailored = rewrite_skills_section st ps tailored"
  by (simp add: export_docx_def open_document_def and_then_def)

lemma round_trip1:
  assumes f: "fs p = Some (DocxFile st (h # s # e # rest))"
    and h: "para_text h = ''SKILLS''" and e: "para_text e = ''EXPERIENCE''"
    and s: "para_text s = ''Hard Skills: Java, SQL''"
  shows "export_docx fs p [''Python''] =
           Inr (h # blank_para # labelled_para ''Hard Skills: '' java_sql_python
                  # blank_para # e # rest)"
proof -
  note rt = round_trip_section [OF h e not_end_hard1 [OF s], of rest]
  have ex: "hard_skills (extract_existing_skills (h # s # e # rest) 0 2) = [''Java'', ''SQL'']"
    "soft_skills (extract_existing_skills (h # s # e # rest) 0 2) = []"
    by (simp_all add: rt(3) s existing1)
  show ?thesis
    by (simp only: export_opened [of fs p, OF f] splice_section [OF rt(1) rt(2) ex(2), of st] ex(1) merged1)
qed

lemma round_trip2:
  assumes f: "fs p = Some (DocxFile st (h # s # e # rest))"
    and h: "para_text h = ''SKILLS''" and e: "para_text e = ''EXPERIENCE''"
    and s: "para_text s = ''Hard Skills: Java, SQL, python''"
  shows "export_docx fs p [''Python''] =
           Inr (h # blank_para # labelled_para ''Hard Skills: '' java_sql_python_lower
                  # blank_para # e # rest)"
proof -
  note rt = round_trip_section [OF h e not_end_hard2 [OF s], of rest]
  have ex: "hard_skills (extract_existing_skills (h # s # e # rest) 0 2)
              = [''Java'', ''SQL'', ''python'']"
    "soft_skills (extract_existing_skills (h # s # e # rest) 0 2) = []"
    by (simp_all add: rt(3) s existing2)
  show ?thesis
    by (simp only: export_opened [of fs p, OF f] splice_section [OF rt(1) rt(2) ex(2), of st] ex(1) merged2)
qed

text \<open>
  C1. A document whose paragraphs are a header \<open>SKILLS\<close>, one paragraph
  \<open>Hard Skills: Java, SQL\<close>, a paragraph \<open>EXPERIENCE\<close> and any paragraphs after it,
  exported with the incoming skill \<open>Python\<close>: the result is the header, a blank
  paragraph, one paragraph \<open>Hard Skills:\<close> that lists Java, SQL, Python in that order,
  a blank paragraph, and then the \<open>EXPERIENCE\<close> paragraph and all that follows it,
  unchanged. When the old paragraph already lists \<open>python\<close>, the new one lists Java,
  SQL, python and no second Python. The result has one \<open>Hard Skills:\<close> paragraph more
  than the paragraphs after \<open>EXPERIENCE\<close> have: exactly one when they have none.
  Whatever the existing and the incoming skills are, no two skills of the merged list
  are equal up to case.
\<close>

theorem skills_section_round_trip:
  assumes "fs p = Some (DocxFile st (h # s # e # rest))"
    and "para_text h = ''SKILLS''" and "para_text e = ''EXPERIENCE''"
  shows "(para_text s = ''Hard Skills: Java, SQL'' \<longrightarrow>
            export_docx fs p [''Python''] =
              Inr (h # blank_para # labelled_para ''Hard Skills: '' java_sql_python
                     # blank_para # e # rest)
            \<and> length (filter is_hard_skills_para
                 (h # blank_para # labelled_para ''Hard Skills: '' java_sql_python
                     # blank_para # e # rest))
              = Suc (length (filter is_hard_skills_para rest)))
       \<and> (para_text s = ''Hard Skills: Java, SQL, python'' \<longrightarrow>
            export_docx fs p [''Python''] =
              Inr (h # blank_para # labelled_para ''Hard Skills: '' java_sql_python_lower
                     # blank_para # e # rest)
            \<and> length (filter is_hard_skills_para
                 (h # blank_para # labelled_para ''Hard Skills: '' java_sql_python_lower
                     # blank_para # e # rest))
              = Suc (length (filter is_hard_skills_para rest)))
       \<and> distinct (map lower (dedup {} (existing @ incoming)))"
  using round_trip1 [of fs p, OF assms] round_trip2 [of fs p, OF assms]
    count_hard_skills [OF assms(2,3)] dedup_distinct_lower [of "{}" "existing @ incoming"]
  by blast

theorem skills_section_round_trip_witness:
  "para_text (plain_para ''SKILLS'') = ''SKILLS''
   \<and> para_text (plain_para ''EXPERIENCE'') = ''EXPERIENCE''
   \<and> para_text (plain_para ''Hard Skills: Java, SQL'') = ''Hard Skills: Java, SQL''
   \<and> para_text (plain_para ''Hard Skills: Java, SQL, python'') = ''Hard Skills: Java, SQL, python''
   \<and> export_docx (only_file ''cv.docx'' (DocxFile word_styles (cv_with_section ''Hard Skills: Java, SQL'')))
        ''cv.docx'' [''Python'']
      = Inr (plain_para ''SKILLS'' # blank_para
             # labelled_para ''Hard Skills: '' java_sql_python
             # blank_para # plain_para ''EXPERIENCE'' # rest_of_cv)
   \<and> export_docx
        (only_file ''cv.docx'' (DocxFile word_styles (cv_with_section ''Hard Skills: Java, SQL, python'')))
        ''cv.docx'' [''Python'']
      = Inr (plain_para ''SKILLS'' # blank_para
             # labelled_para ''Hard Skills: '' java_sql_python_lower
             # blank_para # plain_para ''EXPERIENCE'' # rest_of_cv)
   \<and> length (filter is_hard_skills_para
        (plain_para ''SKILLS'' # blank_para
             # labelled_para ''Hard Skills: '' java_sql_python
             # blank_para # plain_para ''EXPERIENCE'' # rest_of_cv))
      = Suc (length (filter is_hard_skills_para rest_of_cv))"
proof -
  have f: "only_file ''cv.docx'' (DocxFile word_styles (cv_with_section line)) ''cv.docx''
     = Some (DocxFile word_styles (plain_para ''SKILLS'' # plain_para line
                 # plain_para ''EXPERIENCE'' # rest_of_cv))" for line
    by (simp add: only_file_def cv_with_section_def)
  have t: "para_text (plain_para ''SKILLS'') = ''SKILLS''"
    "para_text (plain_para ''EXPERIENCE'') = ''EXPERIENCE''"
    "para_text (plain_para ''Hard Skills: Java, SQL'') = ''Hard Skills: Java, SQL''"
    "para_text (plain_para ''Hard Skills: Java, SQL, python'') = ''Hard Skills: Java, SQL, python''"
    by (simp_all add: para_text_simps)
  from skills_section_round_trip
         [of "only_file ''cv.docx'' (DocxFile word_styles (cv_with_section ''Hard Skills: Java, SQL''))"
             "''cv.docx''", OF f t(1) t(2)]
       skills_section_round_trip
         [of "only_file ''cv.docx'' (DocxFile word_styles (cv_with_section ''Hard Skills: Java, SQL, python''))"
             "''cv.docx''", OF f t(1) t(2)]
       t
  show ?thesis
    by blast
qed

text \<open>
  C1, as stated for arbitrary content after \<open>EXPERIENCE\<close>, fails: when that content
  holds a paragraph \<open>Hard Skills: Java \<bullet> SQL \<bullet> Python\<close>, the exported document has
  two such paragraphs, the new one and the one that was kept.
\<close>

theorem round_trip_second_hard_skills_paragraph:
  "\<exists>out. export_docx
        (only_file ''cv.docx''
          (DocxFile word_styles (plain_para ''SKILLS'' # plain_para ''Hard Skills: Java, SQL''
                     # plain_para ''EXPERIENCE'' # rest_with_hard_skills)))
        ''cv.docx'' [''Python''] = Inr out
      \<and> length (filter is_hard_skills_para out) = 2
      \<and> length (filter (\<lambda>q. para_text q = ''Hard Skills: '' @ java_sql_python) out) = 2"
proof -
  have f: "only_file ''cv.docx''
      (DocxFile word_styles (plain_para ''SKILLS'' # plain_para ''Hard Skills: Java, SQL''
                 # plain_para ''EXPERIENCE'' # rest_with_hard_skills)) ''cv.docx''
     = Some (DocxFile word_styles (plain_para ''SKILLS'' # plain_para ''Hard Skills: Java, SQL''
                 # plain_para ''EXPERIENCE'' # rest_with_hard_skills))"
    by (simp add: only_file_def)
  have "export_docx
        (only_file ''cv.docx''
          (DocxFile word_styles (plain_para ''SKILLS'' # plain_para ''Hard Skills: Java, SQL''
                     # plain_para ''EXPERIENCE'' # rest_with_hard_skills)))
        ''cv.docx'' [''Python'']
      = Inr (plain_para ''SKILLS'' # blank_para
             # labelled_para ''Hard Skills: '' java_sql_python
             # blank_para # plain_para ''EXPERIENCE'' # rest_with_hard_skills)"
    by (rule round_trip1
          [of "only_file ''cv.docx''
                (DocxFile word_styles (plain_para ''SKILLS'' # plain_para ''Hard Skills: Java, SQL''
                           # plain_para ''EXPERIENCE'' # rest_with_hard_skills))" "''cv.docx''",
           OF f])
       (simp_all add: para_text_simps)
  moreover have "length (filter is_hard_skills_para
        (plain_para ''SKILLS'' # blank_para
             # labelled_para ''Hard Skills: '' java_sql_python
             # blank_para # plain_para ''EXPERIENCE'' # rest_with_hard_skills)) = 2"
    by (simp add: is_hard_skills_para_def para_text_simps rest_with_hard_skills_def)
  moreover have "length (filter (\<lambda>q. para_text q = ''Hard Skills: '' @ java_sql_python)
        (plain_para ''SKILLS'' # blank_para
             # labelled_para ''Hard Skills: '' java_sql_python
             # blank_para # plain_para ''EXPERIENCE'' # rest_with_hard_skills)) = 2"
    by (simp add: para_text_simps rest_with_hard_skills_def)
  ultimately show ?thesis by blast
qed







text \<open>
  The header passes see through the whitespace and the letters outside ASCII that
  Python normalises: a no-break space between the words, and a long s.
\<close>

lemma unicode_headers:
  "is_exact_header (plain_para (''Professional'' @ [CHR 0xC2, CHR 0xA0] @ ''Skills''))"
  "is_exact_header (plain_para ([CHR 0xC5, CHR 0xBF] @ ''kills''))"
  by code_simp+

text \<open>
  C8. When the source path names no existing file, the export raises
  \<open>FileNotFoundError\<close>, whatever the skills, and returns no document.
\<close>

theorem export_missing_source:
  assumes "fs p = None"
  shows "export_docx fs p tailored = Inl (FileNotFoundError (''File not found: '' @ p))
       \<and> (\<forall>out. export_docx fs p tailored \<noteq> Inr out)"
  using assms by (simp add: export_docx_def)

theorem export_missing_source_witness:
  "only_file ''cv.docx'' (DocxFile word_styles cv_without_header) ''moved.docx'' = None
   \<and> export_docx (only_file ''cv.docx'' (DocxFile word_styles cv_without_header)) ''moved.docx'' [''Docker'']
      = Inl (FileNotFoundError ''File not found: moved.docx'')"
proof -
  have f: "only_file ''cv.docx'' (DocxFile word_styles cv_without_header) ''moved.docx'' = None"
    by (simp add: only_file_def)
  from export_missing_source
         [of "only_file ''cv.docx'' (DocxFile word_styles cv_without_header)" "''moved.docx''", OF f] f
  show ?thesis by simp
qed

section \<open>Properties of the CV parser\<close>








end
